theory Spec2Isabelle
  imports Complex_Main "HOL-Library.List_Lexorder" "HOL-Library.Char_ord"
begin

section \<open>Data model: cells, series and data frames\<close>

text \<open>
  The profiler (\<^verbatim>\<open>profiler.py\<close>) and the rule generators (\<^verbatim>\<open>pbl_generator.py\<close>) work on
  pandas Series and DataFrames. A Series is modelled as its dtype together with the list of
  its cells; a cell is missing (\<^verbatim>\<open>None\<close>/\<^verbatim>\<open>NaN\<close>), a Python \<^verbatim>\<open>str\<close>, an integer or a float.

  Modelling conventions used throughout:
  \<^item> a Python \<^verbatim>\<open>str\<close> is a \<open>string\<close> whose characters are code points below 256, so
    \<open>length\<close> is Python's \<^verbatim>\<open>len\<close>; the only character of the sources outside that range,
    the dash U+2014 of five rule texts, is written as its three UTF-8 bytes;
  \<^item> float64 values are modelled by the real numbers they denote: arithmetic is exact,
    rounding error, infinities and overflow are not modelled, and \<^verbatim>\<open>NaN\<close> is \<open>None\<close>;
  \<^item> what the code takes from outside the repository and cannot be computed here is a
    parameter: \<open>fs\<close> is Python's \<^verbatim>\<open>str\<close> on a float, \<open>num\<close> is the parsing of a string
    by \<^verbatim>\<open>pd.to_numeric(..., errors='coerce')\<close> (\<open>None\<close> where it coerces to \<^verbatim>\<open>NaN\<close>), and
    every call of \<^verbatim>\<open>Series.sample\<close> takes the row positions \<open>pick\<close> that the random
    generator drew.
\<close>

datatype cell = CNone | CStr string | CInt int | CFloat real

datatype dtype = DInt64 | DFloat64 | DObject

record series =
  s_dtype :: dtype
  s_values :: "cell list"


fun isna :: "cell \<Rightarrow> bool" where
  "isna CNone = True"
| "isna _ = False"

definition notna :: "cell \<Rightarrow> bool" where
  "notna c = (\<not> isna c)"

definition len :: "series \<Rightarrow> nat" where
  "len s = length (s_values s)"

definition empty :: "series \<Rightarrow> bool" where
  "empty s = (s_values s = [])"

definition isna_sum :: "series \<Rightarrow> nat" where
  "isna_sum s = length (filter isna (s_values s))"

definition dropna :: "series \<Rightarrow> series" where
  "dropna s = s\<lparr>s_values := filter notna (s_values s)\<rparr>"

definition head :: "nat \<Rightarrow> series \<Rightarrow> series" where
  "head n s = s\<lparr>s_values := take n (s_values s)\<rparr>"

text \<open>\<^verbatim>\<open>pd.api.types.is_numeric_dtype\<close> and \<^verbatim>\<open>select_dtypes(include=[np.number])\<close> agree on
  the three dtypes of the model.\<close>

definition is_numeric_dtype :: "series \<Rightarrow> bool" where
  "is_numeric_dtype s = (case s_dtype s of DInt64 \<Rightarrow> True | DFloat64 \<Rightarrow> True | DObject \<Rightarrow> False)"

subsection \<open>Stringification\<close>

definition digit_char :: "nat \<Rightarrow> char" where
  "digit_char d = ''0123456789'' ! d"

function str_nat :: "nat \<Rightarrow> string" where
  "str_nat n = (if n < 10 then [digit_char n] else str_nat (n div 10) @ [digit_char (n mod 10)])"
  by pat_completeness auto
termination
  by (relation "measure id") auto

declare str_nat.simps [simp del]

definition str_int :: "int \<Rightarrow> string" where
  "str_int i = (if i < 0 then CHR ''-'' # str_nat (nat (- i)) else str_nat (nat i))"

text \<open>Python's \<^verbatim>\<open>str\<close> of a cell. \<^verbatim>\<open>astype(str)\<close> is only ever applied after
  \<^verbatim>\<open>dropna()\<close>, so the text of a missing cell is never looked at.\<close>

fun py_str :: "(real \<Rightarrow> string) \<Rightarrow> cell \<Rightarrow> string" where
  "py_str fs CNone = ''None''"
| "py_str fs (CStr v) = v"
| "py_str fs (CInt i) = str_int i"
| "py_str fs (CFloat x) = fs x"

definition astype_str :: "(real \<Rightarrow> string) \<Rightarrow> series \<Rightarrow> series" where
  "astype_str fs s = \<lparr>s_dtype = DObject, s_values = map (\<lambda>c. CStr (py_str fs c)) (s_values s)\<rparr>"

text \<open>The Python strings obtained by iterating over a series (or by \<^verbatim>\<open>tolist()\<close>).\<close>

definition tolist :: "(real \<Rightarrow> string) \<Rightarrow> series \<Rightarrow> string list" where
  "tolist fs s = map (py_str fs) (s_values s)"

fun join :: "string \<Rightarrow> string list \<Rightarrow> string" where
  "join sep [] = []"
| "join sep [x] = x"
| "join sep (x # y # ys) = x @ sep @ join sep (y # ys)"

subsection \<open>Random sampling\<close>

text \<open>\<^verbatim>\<open>s.sample(n)\<close> draws \<open>n\<close> rows without replacement. The positions drawn are the
  argument \<open>pick\<close> (the number \<open>n\<close> is kept as the source passes it, and is the length of
  \<open>pick\<close>); \<open>is_draw pick m n\<close> says that \<open>pick\<close> is a possible draw of \<open>n\<close> rows from a
  series of \<open>m\<close> rows.\<close>

definition sample :: "nat list \<Rightarrow> nat \<Rightarrow> series \<Rightarrow> series" where
  "sample pick n s = s\<lparr>s_values := map (\<lambda>i. s_values s ! i) pick\<rparr>"

definition is_draw :: "nat list \<Rightarrow> nat \<Rightarrow> nat \<Rightarrow> bool" where
  "is_draw pick m n = (distinct pick \<and> list_all (\<lambda>i. i < m) pick \<and> length pick = n)"

section \<open>Regular expressions\<close>

text \<open>
  The regular expressions of the sources are sequences of repeated character classes. An
  atom \<open>Rep p lo hi\<close> matches between \<open>lo\<close> and \<open>hi\<close> characters of the class \<open>p\<close> (no upper
  bound when \<open>hi = None\<close>). \<open>rx_prefix r s\<close> lists what is left of \<open>s\<close> after every way of
  matching \<open>r\<close> at its start, so \<^verbatim>\<open>re.fullmatch\<close> succeeds when nothing can be left and
  \<^verbatim>\<open>re.search\<close> when a match starts at some position.
\<close>

datatype atom = Rep "char \<Rightarrow> bool" nat "nat option"

fun rx_prefix :: "atom list \<Rightarrow> string \<Rightarrow> string list" where
  "rx_prefix [] s = [s]"
| "rx_prefix (Rep p lo hi # r) s =
     concat (map (\<lambda>k. if k \<le> length s \<and> list_all p (take k s) then rx_prefix r (drop k s) else [])
                 [lo ..< Suc (case hi of None \<Rightarrow> length s | Some h \<Rightarrow> h)])"

definition fullmatch :: "atom list \<Rightarrow> string \<Rightarrow> bool" where
  "fullmatch r s = ([] \<in> set (rx_prefix r s))"

fun tails :: "string \<Rightarrow> string list" where
  "tails [] = [[]]"
| "tails (c # cs) = (c # cs) # tails cs"

definition search :: "atom list \<Rightarrow> string \<Rightarrow> bool" where
  "search r s = list_ex (\<lambda>t. rx_prefix r t \<noteq> []) (tails s)"

definition is_digit :: "char \<Rightarrow> bool" where
  "is_digit c = (c \<in> set ''0123456789'')"

definition is_alpha_space :: "char \<Rightarrow> bool" where
  "is_alpha_space c = (c \<in> set ''ABCDEFGHIJKLMNOPQRSTUVWXYZabcdefghijklmnopqrstuvwxyz '')"

definition is_sep :: "char \<Rightarrow> bool" where
  "is_sep c = (c \<in> set ''-/'')"

text \<open>Python's \<^verbatim>\<open>\s\<close> on code points below 256: tab, the line breaks, the four separators
  0x1C to 0x1F, space, 0x85 and 0xA0.\<close>

definition is_space :: "char \<Rightarrow> bool" where
  "is_space c = (c \<in> set [CHR 0x09, CHR 0x0A, CHR 0x0B, CHR 0x0C, CHR 0x0D, CHR 0x1C, CHR 0x1D,
                            CHR 0x1E, CHR 0x1F, CHR 0x20, CHR 0x85, CHR 0xA0])"

text \<open>\<^verbatim>\<open>\d+\<close>\<close>
definition rx_digits :: "atom list" where
  "rx_digits = [Rep is_digit 1 None]"

text \<open>\<^verbatim>\<open>[A-Za-z ]+\<close>\<close>
definition rx_alpha :: "atom list" where
  "rx_alpha = [Rep is_alpha_space 1 None]"

text \<open>\<^verbatim>\<open>@\<close>\<close>
definition rx_at :: "atom list" where
  "rx_at = [Rep (\<lambda>c. c = CHR ''@'') 1 (Some 1)]"

text \<open>\<^verbatim>\<open>\d{2,4}[-/]\d{1,2}[-/]\d{1,2}\<close>\<close>
definition rx_date :: "atom list" where
  "rx_date = [Rep is_digit 2 (Some 4), Rep is_sep 1 (Some 1), Rep is_digit 1 (Some 2),
              Rep is_sep 1 (Some 1), Rep is_digit 1 (Some 2)]"

text \<open>\<^verbatim>\<open>\+?\d[\d\-\s]{6,}\<close>\<close>
definition rx_phone :: "atom list" where
  "rx_phone = [Rep (\<lambda>c. c = CHR ''+'') 0 (Some 1), Rep is_digit 1 (Some 1),
               Rep (\<lambda>c. is_digit c \<or> c = CHR ''-'' \<or> is_space c) 6 None]"

section \<open>The pattern detector\<close>

text \<open>
  \<^verbatim>\<open>detect_pattern(series, sample_n=500)\<close> of \<^verbatim>\<open>profiler.py\<close>. The Python set \<^verbatim>\<open>patterns\<close>
  is a duplicate-free list, \<^verbatim>\<open>patterns.add\<close> is \<open>List.insert\<close>, and \<^verbatim>\<open>sorted\<close> orders the
  labels by code point, which is the lexicographic order on \<open>string\<close>.
\<close>

definition classify :: "string \<Rightarrow> string list \<Rightarrow> string list" where
  "classify v patterns =
     (let patterns = (if fullmatch rx_digits v then List.insert ''numeric'' patterns else patterns);
          patterns = (if fullmatch rx_alpha v then List.insert ''alpha'' patterns else patterns);
          patterns = (if search rx_at v then List.insert ''email-like'' patterns else patterns);
          patterns = (if search rx_date v then List.insert ''date-like'' patterns else patterns)
      in patterns)"

definition detect_pattern :: "(real \<Rightarrow> string) \<Rightarrow> nat list \<Rightarrow> series \<Rightarrow> nat \<Rightarrow> string" where
  "detect_pattern fs pick series sample_n =
     (let s = astype_str fs (dropna series) in
      if empty s then ''empty''
      else
        let smp = astype_str fs (sample pick (min (len s) sample_n) s);
            patterns = fold classify (tolist fs smp) []
        in if patterns \<noteq> [] then join '', '' (sort patterns) else ''mixed'')"

text \<open>The categories of the specification, each with the test that puts a value into it,
  and the set of categories matched by some value of a sample.\<close>

definition in_category :: "string \<Rightarrow> string \<Rightarrow> bool" where
  "in_category cat v =
     (cat = ''numeric'' \<and> fullmatch rx_digits v \<or>
      cat = ''alpha'' \<and> fullmatch rx_alpha v \<or>
      cat = ''email-like'' \<and> search rx_at v \<or>
      cat = ''date-like'' \<and> search rx_date v)"

definition matched_categories :: "string list \<Rightarrow> string set" where
  "matched_categories vs = {cat \<in> {''numeric'', ''alpha'', ''email-like'', ''date-like''}.
                              \<exists>v \<in> set vs. in_category cat v}"

text \<open>The strings that the detector scans: the non-missing cells at the drawn positions.\<close>

definition sampled_values :: "(real \<Rightarrow> string) \<Rightarrow> nat list \<Rightarrow> series \<Rightarrow> string list" where
  "sampled_values fs pick series = map (\<lambda>i. py_str fs (filter notna (s_values series) ! i)) pick"

section \<open>Numeric series\<close>

text \<open>
  A numeric series is a list of floats, \<open>None\<close> being \<^verbatim>\<open>NaN\<close>. \<open>to_numeric num\<close> is
  \<^verbatim>\<open>pd.to_numeric(series, errors='coerce')\<close>: numbers stay, missing cells become \<^verbatim>\<open>NaN\<close>, and
  a string is parsed by \<open>num\<close>, which yields \<^verbatim>\<open>NaN\<close> for a string that is not a number.
  The reductions follow pandas: they skip \<^verbatim>\<open>NaN\<close> and return \<^verbatim>\<open>NaN\<close> where nothing is left.
\<close>

type_synonym pyfloat = "real option"

fun num_value :: "cell \<Rightarrow> pyfloat" where
  "num_value (CInt i) = Some (real_of_int i)"
| "num_value (CFloat x) = Some x"
| "num_value _ = None"

fun to_numeric_cell :: "(string \<Rightarrow> pyfloat) \<Rightarrow> cell \<Rightarrow> pyfloat" where
  "to_numeric_cell num (CStr v) = num v"
| "to_numeric_cell num c = num_value c"

definition to_numeric :: "(string \<Rightarrow> pyfloat) \<Rightarrow> series \<Rightarrow> pyfloat list" where
  "to_numeric num s = map (to_numeric_cell num) (s_values s)"

fun dropna_num :: "pyfloat list \<Rightarrow> real list" where
  "dropna_num [] = []"
| "dropna_num (None # xs) = dropna_num xs"
| "dropna_num (Some x # xs) = x # dropna_num xs"

definition nanmin :: "real list \<Rightarrow> pyfloat" where
  "nanmin xs = (if xs = [] then None else Some (Min (set xs)))"

definition nanmax :: "real list \<Rightarrow> pyfloat" where
  "nanmax xs = (if xs = [] then None else Some (Max (set xs)))"

definition nanmean :: "real list \<Rightarrow> pyfloat" where
  "nanmean xs = (if xs = [] then None else Some (sum_list xs / real (length xs)))"








section \<open>The outlier detector\<close>





section \<open>The dataset profiler\<close>

text \<open>
  \<^verbatim>\<open>profile_dataframe(df)\<close> of \<^verbatim>\<open>profiler.py\<close>. A data frame is the list of its columns, each
  with its name, in column order; the names are distinct, so that \<^verbatim>\<open>df[col]\<close> is the column
  of that name. The statistics added for a numeric column only are the optional part
  \<open>cs_numeric\<close> of the column's record. \<^verbatim>\<open>anomaly_scores\<close>, the scores of a scikit-learn
  isolation forest, has no counterpart here. Python's \<^verbatim>\<open>/\<close> raises on a zero divisor.
\<close>

datatype error = ZeroDivisionError

definition truediv :: "real \<Rightarrow> real \<Rightarrow> error + real" where
  "truediv a b = (if b = 0 then Inl ZeroDivisionError else Inr (a / b))"

fun hash_key :: "cell \<Rightarrow> cell" where
  "hash_key (CInt i) = CFloat (real_of_int i)"
| "hash_key c = c"

text \<open>\<^verbatim>\<open>nunique(dropna=True)\<close>: the number of distinct values that are not missing; Python
  holds an integer and the float of the same value to be equal.\<close>

definition nunique :: "series \<Rightarrow> nat" where
  "nunique s = length (remdups (map hash_key (filter notna (s_values s))))"





definition quote :: string where
  "quote = [CHR 0x27]"











definition rint :: "real \<Rightarrow> int" where
  "rint x = (let f = \<lfloor>x\<rfloor>; d = x - of_int f
             in if d < 1 / 2 then f else if 1 / 2 < d then f + 1 else if even f then f else f + 1)"






section \<open>The single-dataset rule generator\<close>

text \<open>\<^verbatim>\<open>infer_length_rules\<close>, \<^verbatim>\<open>is_numeric_only\<close>, \<^verbatim>\<open>is_alpha_only\<close> and
  \<^verbatim>\<open>generate_pbl_for_column\<close> of \<^verbatim>\<open>pbl_generator.py\<close>. \<^verbatim>\<open>lengths.mode().iloc[0]\<close> is the
  least of the most frequent lengths, since pandas returns the modes sorted.\<close>

record length_rules =
  lr_min :: nat
  lr_max :: nat
  lr_typical :: "nat option"

definition mode_first :: "nat list \<Rightarrow> nat option" where
  "mode_first ls =
     (if ls = [] then None
      else let top = Max (set (map (count_list ls) ls))
           in Some (Min (set (filter (\<lambda>l. count_list ls l = top) ls))))"

definition infer_length_rules :: "(real \<Rightarrow> string) \<Rightarrow> series \<Rightarrow> length_rules option" where
  "infer_length_rules fs series =
     (let s = astype_str fs (dropna series) in
      if empty s then None
      else let lengths = map length (tolist fs s)
           in Some \<lparr>lr_min = Min (set lengths), lr_max = Max (set lengths),
                    lr_typical = mode_first lengths\<rparr>)"

text \<open>The mean of a Boolean series: the fraction of its entries that are true.\<close>

definition bool_mean :: "bool list \<Rightarrow> pyfloat" where
  "bool_mean bs = nanmean (map (\<lambda>b. if b then 1 else 0) bs)"

fun fge :: "pyfloat \<Rightarrow> pyfloat \<Rightarrow> bool" where
  "fge (Some a) (Some b) = (b \<le> a)"
| "fge _ _ = False"

definition is_numeric_only :: "(real \<Rightarrow> string) \<Rightarrow> series \<Rightarrow> real \<Rightarrow> bool" where
  "is_numeric_only fs series threshold =
     (let s = astype_str fs (dropna series) in
      if empty s then False
      else let frac = bool_mean (map (fullmatch rx_digits) (tolist fs s))
           in fge frac (Some threshold))"

definition is_alpha_only :: "(real \<Rightarrow> string) \<Rightarrow> series \<Rightarrow> real \<Rightarrow> bool" where
  "is_alpha_only fs series threshold =
     (let s = astype_str fs (dropna series) in
      if empty s then False
      else let frac = bool_mean (map (fullmatch rx_alpha) (tolist fs s))
           in fge frac (Some threshold))"

definition em_dash :: string where
  "em_dash = [CHR 0xE2, CHR 0x80, CHR 0x94]"

text \<open>The three steps of \<^verbatim>\<open>generate_pbl_for_column\<close>: nullability (lines 29 to 33), character
  class, format and length (lines 35 to 53), uniqueness and cardinality (lines 55 to 60).\<close>

definition nullability_rules :: "series \<Rightarrow> string list" where
  "nullability_rules series =
     (let null_allowed = (isna_sum series > 0)
      in if \<not> null_allowed then [''Nulls are NOT allowed.''] else [''Nulls are allowed.''])"

definition character_rules :: "(real \<Rightarrow> string) \<Rightarrow> series \<Rightarrow> string list" where
  "character_rules fs series =
     (if is_numeric_only fs series (98 / 100) then
        [''Only numeric characters allowed.'']
        @ (case infer_length_rules fs series of
             Some lengths \<Rightarrow> [''Character length between '' @ str_nat (lr_min lengths)
                              @ '' and '' @ str_nat (lr_max lengths) @ ''.'']
           | None \<Rightarrow> [])
        @ [''No special characters or alphabets allowed.'']
      else if is_alpha_only fs series (98 / 100) then
        [''Alphabetic characters allowed only.'']
      else
        let s = astype_str fs (dropna series);
            smp = tolist fs (head 50 s)
        in (if list_ex (search rx_at) smp
            then [''Email format expected (contains '' @ quote @ ''@'' @ quote @ '').''] else [])
           @ (if list_ex (fullmatch rx_phone) smp
              then [''Phone number like pattern detected.''] else [])
           @ (case infer_length_rules fs series of
                Some lengths \<Rightarrow> [''Recommended character length between '' @ str_nat (lr_min lengths)
                                 @ '' and '' @ str_nat (lr_max lengths) @ ''.'']
              | None \<Rightarrow> [])
           @ [''Avoid special characters unless required (/, -, : etc).''])"

definition candidate_key_rule :: string where
  "candidate_key_rule = ''Values are unique '' @ em_dash @ '' consider as candidate key.''"

definition low_cardinality_rule :: string where
  "low_cardinality_rule =
     ''Low cardinality '' @ em_dash @ '' likely categorical; map to lookup table or enumerations.''"

definition uniqueness_rules :: "series \<Rightarrow> error + string list" where
  "uniqueness_rules series =
     (if nunique series = len (dropna series) then Inr [candidate_key_rule]
      else
        case truediv (real (nunique series)) (real (max 1 (len series))) of
          Inl e \<Rightarrow> Inl e
        | Inr distinct_ratio \<Rightarrow>
            Inr (if distinct_ratio < 2 / 100 then [low_cardinality_rule] else []))"

definition generate_pbl_for_column :: "(real \<Rightarrow> string) \<Rightarrow> series \<Rightarrow> error + string list" where
  "generate_pbl_for_column fs series =
     (let rules = nullability_rules series;
          rules = rules @ character_rules fs series
      in case uniqueness_rules series of
           Inl e \<Rightarrow> Inl e
         | Inr last_rules \<Rightarrow> Inr (rules @ last_rules))"

section \<open>The reference-based rule generator\<close>

text \<open>\<^verbatim>\<open>_suggest_regex_from_sample\<close> and \<^verbatim>\<open>derive_rules_from_reference\<close> of
  \<^verbatim>\<open>pbl_generator.py\<close>. The regular expressions that are returned as text contain
  backslashes, written \<open>bs\<close>. \<^verbatim>\<open>{x:.2f}\<close> prints a float with two decimals; it is modelled
  on the exact value, a tie going to the even neighbour.\<close>

definition bs :: string where
  "bs = [CHR 0x5C]"

definition suggest_regex_from_sample :: "string list \<Rightarrow> nat \<Rightarrow> string option" where
  "suggest_regex_from_sample sample_values max_samples =
     (let smp = take max_samples sample_values in
      if smp = [] then None
      else if list_all (fullmatch rx_digits) smp then Some (''^'' @ bs @ ''d+$'')
      else if list_all (search rx_at) (filter (\<lambda>v. v \<noteq> []) smp)
        then Some (''^['' @ bs @ ''w'' @ bs @ ''.-]+@['' @ bs @ ''w'' @ bs @ ''.-]+'' @ bs @ ''.'' @ bs @ ''w{2,}$'')
      else if list_all (search rx_date) (filter (\<lambda>v. v \<noteq> []) smp)
        then Some (''^'' @ bs @ ''d{2,4}[-/]'' @ bs @ ''d{1,2}[-/]'' @ bs @ ''d{1,2}$'')
      else
        let lengths = map length smp in
        if lengths \<noteq> []
        then Some (''^.{'' @ str_nat (Min (set lengths)) @ '','' @ str_nat (Max (set lengths)) @ ''}$'')
        else None)"

definition two_digits :: "nat \<Rightarrow> string" where
  "two_digits n = [digit_char (n div 10), digit_char (n mod 10)]"

definition fmt_2f :: "real \<Rightarrow> string" where
  "fmt_2f x =
     (let n = nat (rint (\<bar>x\<bar> * 100))
      in (if x < 0 then ''-'' else []) @ str_nat (n div 100) @ ''.'' @ two_digits (n mod 100))"

fun fs_py :: "(real \<Rightarrow> string) \<Rightarrow> pyfloat \<Rightarrow> string" where
  "fs_py fs (Some x) = fs x"
| "fs_py fs None = ''nan''"

text \<open>The fraction of the distinct target values that occur among the reference values
  (lines 129 to 134).\<close>

definition overlap_frac :: "string list \<Rightarrow> string list \<Rightarrow> error + real" where
  "overlap_frac t_vals r_vals =
     (if length t_vals = 0 then Inr 0
      else truediv (real (length (filter (\<lambda>v. v \<in> set r_vals) t_vals))) (real (max 1 (length t_vals))))"

text \<open>The rules of the enumeration step for the overlap fraction \<open>ov\<close> (lines 136 to 150).\<close>

definition enumeration_rules :: "real \<Rightarrow> real \<Rightarrow> string list \<Rightarrow> string list" where
  "enumeration_rules ov enum_threshold r_vals =
     (if enum_threshold \<le> ov then
        let distinct_ref = take 200 (sort r_vals) in
        (if length distinct_ref \<le> 50
         then [''Allowed values derived from reference (enumeration of ''
               @ str_nat (length distinct_ref) @ '' values).'',
               ''Allowed values (sample): '' @ join '', '' (take 20 distinct_ref)]
         else [''Reference provides a large allowed list ('' @ str_nat (length distinct_ref)
               @ '' values). Use lookup mapping.''])
        @ [''Fraction of target values present in reference: '' @ fmt_2f ov]
      else if 0 < ov then
        [fmt_2f ov @ '' fraction of target values match reference values (partial overlap).'']
      else
        [''No meaningful overlap with reference values; reference may be different domain or mismatch.''])"

text \<open>The steps of \<^verbatim>\<open>derive_rules_from_reference\<close>, each on the two series \<open>t\<close> and \<open>r\<close>
  of lines 108 and 109, the target and the reference after \<^verbatim>\<open>dropna().astype(str)\<close>:
  the null rule (lines 114 to 121), the reference key (124, 125), the enumeration (127 to
  150), the numeric ranges (153 to 159), the suggested pattern (163 to 167), the distinct
  counts (170 to 173) and the uniqueness of the target (176 to 181).\<close>

definition null_rules :: "series \<Rightarrow> series \<Rightarrow> string list" where
  "null_rules t r =
     (if isna_sum r = 0 then
        (if isna_sum t = 0 then [''Nulls are NOT allowed (reference has no nulls).'']
         else [''Nulls are present in this dataset but reference expects none.''])
      else [''Nulls allowed (reference permits nulls).''])"

definition reference_key_rules :: "series \<Rightarrow> string list" where
  "reference_key_rules r =
     (if nunique r = len r
      then [''Reference values are unique '' @ em_dash @ '' consider as reference key.'']
      else [])"

definition overlap_rules :: "(real \<Rightarrow> string) \<Rightarrow> series \<Rightarrow> series \<Rightarrow> real \<Rightarrow> error + string list" where
  "overlap_rules fs t r enum_threshold =
     (if len r > 0 \<and> len t > 0 then
        let t_vals = remdups (tolist fs t);
            r_vals = remdups (tolist fs r)
        in case overlap_frac t_vals r_vals of
             Inl e \<Rightarrow> Inl e
           | Inr ov \<Rightarrow> Inr (enumeration_rules ov enum_threshold r_vals)
      else Inr [])"

definition numeric_range_rules ::
  "(real \<Rightarrow> string) \<Rightarrow> (string \<Rightarrow> pyfloat) \<Rightarrow> series \<Rightarrow> series \<Rightarrow> string list" where
  "numeric_range_rules fs num t r =
     (if is_numeric_dtype r \<and> is_numeric_dtype t then
        let tnum = dropna_num (to_numeric num t);
            rnum = dropna_num (to_numeric num r)
        in (if tnum \<noteq> []
            then [''Numeric range observed in target: min='' @ fs_py fs (nanmin tnum)
                  @ '', max='' @ fs_py fs (nanmax tnum) @ ''.''] else [])
           @ (if rnum \<noteq> []
              then [''Reference numeric range: min='' @ fs_py fs (nanmin rnum)
                    @ '', max='' @ fs_py fs (nanmax rnum) @ ''.''] else [])
      else [])"

definition pattern_rules ::
  "(real \<Rightarrow> string) \<Rightarrow> nat list \<Rightarrow> nat list \<Rightarrow> series \<Rightarrow> series \<Rightarrow> nat \<Rightarrow> string list" where
  "pattern_rules fs tgt_pick ref_pick t r sample_size =
     (let ref_sample = (if len r \<noteq> 0
                        then tolist fs (astype_str fs (sample ref_pick (min (len r) sample_size) r)) else []);
          tgt_sample = (if len t \<noteq> 0
                        then tolist fs (astype_str fs (sample tgt_pick (min (len t) sample_size) t)) else []);
          pat = suggest_regex_from_sample (if ref_sample \<noteq> [] then ref_sample else tgt_sample) 100
      in case pat of
           Some p \<Rightarrow> (if p \<noteq> [] then [''Suggested pattern (regex): `'' @ p @ ''`''] else [])
         | None \<Rightarrow> [])"

definition distinct_count_rules :: "series \<Rightarrow> series \<Rightarrow> string list" where
  "distinct_count_rules t r =
     (if len r > 0 then [''Reference distinct count: '' @ str_nat (nunique r)] else [])
     @ (if len t > 0 then [''Target distinct count: '' @ str_nat (nunique t)] else [])"

definition target_key_rule :: string where
  "target_key_rule = ''Values in this dataset are unique '' @ em_dash @ '' candidate key.''"

definition target_low_cardinality_rule :: string where
  "target_low_cardinality_rule = ''Low cardinality in target '' @ em_dash @ '' likely categorical.''"

definition target_uniqueness_rules :: "series \<Rightarrow> error + string list" where
  "target_uniqueness_rules t =
     (if nunique t = len t then Inr [target_key_rule]
      else
        case truediv (real (nunique t)) (real (max 1 (len t))) of
          Inl e \<Rightarrow> Inl e
        | Inr distinct_ratio \<Rightarrow>
            Inr (if distinct_ratio < 2 / 100 then [target_low_cardinality_rule] else []))"

definition derive_rules_from_reference ::
  "(real \<Rightarrow> string) \<Rightarrow> (string \<Rightarrow> pyfloat) \<Rightarrow> nat list \<Rightarrow> nat list \<Rightarrow>
   series \<Rightarrow> series \<Rightarrow> real \<Rightarrow> nat \<Rightarrow> error + string list" where
  "derive_rules_from_reference fs num tgt_pick ref_pick target_series reference_series
                               enum_threshold sample_size =
     (let t = astype_str fs (dropna target_series);
          r = astype_str fs (dropna reference_series);
          rules = null_rules t r;
          rules = rules @ reference_key_rules r
      in case overlap_rules fs t r enum_threshold of
           Inl e \<Rightarrow> Inl e
         | Inr enum_rules \<Rightarrow>
             let rules = rules @ enum_rules;
                 rules = rules @ numeric_range_rules fs num t r;
                 rules = rules @ pattern_rules fs tgt_pick ref_pick t r sample_size;
                 rules = rules @ distinct_count_rules t r
             in case target_uniqueness_rules t of
                  Inl e \<Rightarrow> Inl e
                | Inr last_rules \<Rightarrow> Inr (rules @ last_rules))"

section \<open>Properties of the regular expressions\<close>

lemma rx_prefix_single_full:
  "fullmatch [Rep p 1 None] v \<longleftrightarrow> v \<noteq> [] \<and> list_all p v"
proof
  assume "fullmatch [Rep p 1 None] v"
  then obtain k where k: "1 \<le> k" "k \<le> length v" "list_all p (take k v)" "drop k v = []"
    by (auto simp: fullmatch_def split: if_splits)
  then have "k = length v" by simp
  with k show "v \<noteq> [] \<and> list_all p v" by auto
next
  assume a: "v \<noteq> [] \<and> list_all p v"
  then have "length v \<in> set [1 ..< Suc (length v)]" by (cases v) auto
  with a show "fullmatch [Rep p 1 None] v"
    by (auto simp: fullmatch_def intro!: bexI[where x="length v"])
qed

lemma fullmatch_digits_iff: "fullmatch rx_digits v \<longleftrightarrow> v \<noteq> [] \<and> list_all is_digit v"
  unfolding rx_digits_def by (rule rx_prefix_single_full)

lemma fullmatch_alpha_iff: "fullmatch rx_alpha v \<longleftrightarrow> v \<noteq> [] \<and> list_all is_alpha_space v"
  unfolding rx_alpha_def by (rule rx_prefix_single_full)

lemma set_tails: "t \<in> set (tails s) \<Longrightarrow> set t \<subseteq> set s"
  by (induction s) auto

lemma tails_mem: "c \<in> set s \<Longrightarrow> \<exists>t. (c # t) \<in> set (tails s)"
  by (induction s) auto

lemma search_at_iff: "search rx_at v \<longleftrightarrow> CHR ''@'' \<in> set v"
proof
  assume "search rx_at v"
  then obtain t where t: "t \<in> set (tails v)" "rx_prefix rx_at t \<noteq> []"
    by (auto simp: search_def list_ex_iff)
  from t(2) have "t \<noteq> [] \<and> hd t = CHR ''@''"
    by (cases t) (auto simp: rx_at_def split: if_splits)
  then have "CHR ''@'' \<in> set t" by (cases t) auto
  with set_tails[OF t(1)] show "CHR ''@'' \<in> set v" by auto
next
  assume "CHR ''@'' \<in> set v"
  then obtain t where "(CHR ''@'' # t) \<in> set (tails v)" using tails_mem by blast
  moreover have "rx_prefix rx_at (CHR ''@'' # t) \<noteq> []" by (simp add: rx_at_def)
  ultimately show "search rx_at v" by (auto simp: search_def list_ex_iff)
qed

lemma rx_prefix_class_hit:
  assumes "rx_prefix (Rep p lo hi # Rep q 1 (Some 1) # r) t \<noteq> []"
  shows "\<exists>c \<in> set t. q c"
proof -
  from assms obtain k where k: "k \<le> length t" "rx_prefix (Rep q 1 (Some 1) # r) (drop k t) \<noteq> []"
    by (auto split: if_splits)
  from k(2) have "drop k t \<noteq> [] \<and> q (hd (drop k t))"
    by (cases "drop k t") (auto split: if_splits)
  then have "hd (drop k t) \<in> set (drop k t)" "q (hd (drop k t))" by auto
  then show ?thesis by (meson in_set_dropD)
qed

lemma search_date_sep: "search rx_date v \<Longrightarrow> \<exists>c \<in> set v. is_sep c"
proof -
  assume "search rx_date v"
  then obtain t where t: "t \<in> set (tails v)" "rx_prefix rx_date t \<noteq> []"
    by (auto simp: search_def list_ex_iff)
  from t(2) have "\<exists>c \<in> set t. is_sep c"
    unfolding rx_date_def by (rule rx_prefix_class_hit)
  with set_tails[OF t(1)] show ?thesis by auto
qed

lemma digit_not_others:
  "is_digit c \<Longrightarrow> \<not> is_sep c \<and> \<not> is_alpha_space c \<and> c \<noteq> CHR ''@''"
  by (auto simp: is_digit_def is_sep_def is_alpha_space_def)


lemma set_classify:
  "set (classify v ps) = set ps \<union> {cat \<in> {''numeric'', ''alpha'', ''email-like'', ''date-like''}. in_category cat v}"
  by (auto simp: classify_def in_category_def Let_def)

lemma distinct_classify: "distinct ps \<Longrightarrow> distinct (classify v ps)"
  by (simp add: classify_def Let_def)

lemma set_fold_classify:
  "set (fold classify vs ps) = set ps \<union> matched_categories vs"
proof (induction vs arbitrary: ps)
  case Nil
  show ?case by (simp add: matched_categories_def)
next
  case (Cons v vs)
  have "matched_categories (v # vs) =
        {cat \<in> {''numeric'', ''alpha'', ''email-like'', ''date-like''}. in_category cat v} \<union> matched_categories vs"
    by (auto simp: matched_categories_def)
  with Cons show ?case by (simp add: set_classify Un_assoc)
qed

lemma distinct_fold_classify: "distinct ps \<Longrightarrow> distinct (fold classify vs ps)"
  by (induction vs arbitrary: ps) (simp_all add: distinct_classify)

lemma sort_distinct_set: "distinct (xs :: string list) \<Longrightarrow> sort xs = sorted_list_of_set (set xs)"
  by (simp add: sorted_list_of_set_sort_remdups distinct_remdups_id)

lemma tolist_sample:
  "tolist fs (astype_str fs (sample pick k (astype_str fs (dropna series))))
   = map (\<lambda>i. py_str fs (map (\<lambda>c. CStr (py_str fs c)) (filter notna (s_values series)) ! i)) pick"
  by (simp add: tolist_def astype_str_def sample_def dropna_def comp_def)

lemma tolist_sample_draw:
  assumes "list_all (\<lambda>i. i < length (filter notna (s_values series))) pick"
  shows "tolist fs (astype_str fs (sample pick k (astype_str fs (dropna series))))
         = sampled_values fs pick series"
  using assms unfolding tolist_sample sampled_values_def
  by (auto simp: list_all_iff)

lemma detect_pattern_general:
  assumes "is_draw pick (len (dropna series)) (min (len (dropna series)) sample_n)"
      and "\<not> list_all isna (s_values series)"
  shows "detect_pattern fs pick series sample_n =
          (if matched_categories (sampled_values fs pick series) = {} then ''mixed''
           else join '', '' (sorted_list_of_set (matched_categories (sampled_values fs pick series))))"
proof -
  have ne: "\<not> empty (astype_str fs (dropna series))"
    using assms(2) by (auto simp: empty_def astype_str_def dropna_def filter_empty_conv list_all_iff notna_def)
  have rng: "list_all (\<lambda>i. i < length (filter notna (s_values series))) pick"
    using assms(1) by (simp add: is_draw_def len_def dropna_def)
  let ?ps = "fold classify (sampled_values fs pick series) []"
  have dp: "detect_pattern fs pick series sample_n =
            (if ?ps \<noteq> [] then join '', '' (sort ?ps) else ''mixed'')"
    using ne by (simp add: detect_pattern_def Let_def tolist_sample_draw[OF rng])
  have s: "set ?ps = matched_categories (sampled_values fs pick series)"
    by (simp add: set_fold_classify)
  have d: "distinct ?ps" by (simp add: distinct_fold_classify)
  show ?thesis
  proof (cases "?ps = []")
    case True
    with s dp show ?thesis by simp
  next
    case False
    then have "matched_categories (sampled_values fs pick series) \<noteq> {}" using s by auto
    with dp False s sort_distinct_set[OF d] show ?thesis by simp
  qed
qed

lemma detect_pattern_empty:
  "list_all isna (s_values series) \<Longrightarrow> detect_pattern fs pick series sample_n = ''empty''"
  by (simp add: detect_pattern_def empty_def astype_str_def dropna_def filter_empty_conv list_all_iff notna_def)

lemma digits_categories:
  assumes "vs \<noteq> []" "\<forall>v \<in> set vs. fullmatch rx_digits v"
  shows "matched_categories vs = {''numeric''}"
proof -
  have no: "\<not> fullmatch rx_alpha v \<and> \<not> search rx_at v \<and> \<not> search rx_date v" if "v \<in> set vs" for v
  proof -
    from that assms(2) have "fullmatch rx_digits v" by simp
    then have dv: "v \<noteq> []" "list_all is_digit v"
      by (simp_all add: fullmatch_digits_iff)
    then have "\<forall>c \<in> set v. \<not> is_sep c \<and> \<not> is_alpha_space c \<and> c \<noteq> CHR ''@''"
      using digit_not_others by (auto simp: list_all_iff)
    moreover from dv have "set v \<noteq> {}" by simp
    ultimately show ?thesis
      using search_date_sep[of v] 
      by (auto simp: fullmatch_alpha_iff search_at_iff list_all_iff)
  qed
  obtain v where "v \<in> set vs" using assms(1) by (cases vs) auto
  with assms(2) no show ?thesis
    by (auto simp: matched_categories_def in_category_def)
qed

section \<open>Claims about the pattern detector\<close>

text \<open>
  Claim C3. For every possible draw of the sample, \<^verbatim>\<open>detect_pattern\<close> returns \<^verbatim>\<open>"empty"\<close> for
  a column whose cells are all missing; for a column with at least one value, at most
  \<open>sample_n\<close> (by default 500) rows and only values consisting of one or more digits it
  returns exactly \<^verbatim>\<open>"numeric"\<close>, since such a value is in no other category; and for every
  column with at least one value the label is \<^verbatim>\<open>"mixed"\<close> when no sampled value is in any
  category, and otherwise the matched categories in lexicographic order, joined by a comma
  and a space. The pattern \<^verbatim>\<open>^\d+$\<close> of the claim is read as the code applies it, as a match
  of the whole string.
\<close>

theorem detect_pattern_labels:
  assumes "is_draw pick (len (dropna series)) (min (len (dropna series)) sample_n)"
  shows "(list_all isna (s_values series) \<longrightarrow> detect_pattern fs pick series sample_n = ''empty'')
       \<and> (\<not> list_all isna (s_values series) \<and> len series \<le> sample_n
            \<and> (\<forall>c \<in> set (s_values series). notna c \<longrightarrow> fullmatch rx_digits (py_str fs c))
          \<longrightarrow> detect_pattern fs pick series sample_n = ''numeric'')
       \<and> (\<not> list_all isna (s_values series)
          \<longrightarrow> detect_pattern fs pick series sample_n =
               (if matched_categories (sampled_values fs pick series) = {} then ''mixed''
                else join '', '' (sorted_list_of_set (matched_categories (sampled_values fs pick series)))))"
proof (intro conjI impI)
  assume "list_all isna (s_values series)"
  then show "detect_pattern fs pick series sample_n = ''empty''"
    by (rule detect_pattern_empty)
next
  assume "\<not> list_all isna (s_values series)"
  with assms show "detect_pattern fs pick series sample_n =
      (if matched_categories (sampled_values fs pick series) = {} then ''mixed''
       else join '', '' (sorted_list_of_set (matched_categories (sampled_values fs pick series))))"
    by (rule detect_pattern_general)
next
  assume a: "\<not> list_all isna (s_values series) \<and> len series \<le> sample_n
             \<and> (\<forall>c \<in> set (s_values series). notna c \<longrightarrow> fullmatch rx_digits (py_str fs c))"
  let ?nn = "filter notna (s_values series)"
  from a have nn: "?nn \<noteq> []"
    by (auto simp: filter_empty_conv list_all_iff notna_def)
  have "length ?nn \<le> length (s_values series)" by (rule length_filter_le)
  moreover from a have "length (s_values series) \<le> sample_n" by (simp add: len_def)
  ultimately have "length ?nn \<le> sample_n" by (rule le_trans)
  with assms have lp: "length pick = length ?nn" and rng: "\<forall>i \<in> set pick. i < length ?nn"
    by (simp_all add: is_draw_def len_def dropna_def list_all_iff)
  from lp nn have ne: "sampled_values fs pick series \<noteq> []"
    by (auto simp: sampled_values_def)
  have "\<forall>v \<in> set (sampled_values fs pick series). fullmatch rx_digits v"
  proof
    fix v assume "v \<in> set (sampled_values fs pick series)"
    then obtain i where i: "i \<in> set pick" "v = py_str fs (?nn ! i)"
      by (auto simp: sampled_values_def)
    with rng have "i < length ?nn" by simp
    then have "?nn ! i \<in> set ?nn" by (rule nth_mem)
    then have "?nn ! i \<in> set (s_values series)" "notna (?nn ! i)" by simp_all
    with a i show "fullmatch rx_digits v" by simp
  qed
  with ne have "matched_categories (sampled_values fs pick series) = {''numeric''}"
    by (rule digits_categories)
  moreover from a assms have "detect_pattern fs pick series sample_n =
      (if matched_categories (sampled_values fs pick series) = {} then ''mixed''
       else join '', '' (sorted_list_of_set (matched_categories (sampled_values fs pick series))))"
    by (intro detect_pattern_general) simp_all
  ultimately show "detect_pattern fs pick series sample_n = ''numeric''" by simp
qed

theorem detect_pattern_labels_witness:
  "detect_pattern (\<lambda>x. []) [] \<lparr>s_dtype = DObject, s_values = [CNone, CNone]\<rparr> 500 = ''empty''
   \<and> detect_pattern (\<lambda>x. []) [1, 0] \<lparr>s_dtype = DObject, s_values = [CStr ''12'', CNone, CStr ''7'']\<rparr> 500
     = ''numeric''"
proof -
  let ?e = "\<lparr>s_dtype = DObject, s_values = [CNone, CNone]\<rparr>"
  let ?s = "\<lparr>s_dtype = DObject, s_values = [CStr ''12'', CNone, CStr ''7'']\<rparr>"
  have d1: "is_draw [] (len (dropna ?e)) (min (len (dropna ?e)) 500)"
    by (simp add: is_draw_def len_def dropna_def notna_def)
  have d2: "is_draw [1, 0] (len (dropna ?s)) (min (len (dropna ?s)) 500)"
    by (simp add: is_draw_def len_def dropna_def notna_def)
  have h1: "list_all isna (s_values ?e)" by simp
  have h2: "\<not> list_all isna (s_values ?s) \<and> len ?s \<le> 500
            \<and> (\<forall>c \<in> set (s_values ?s). notna c \<longrightarrow> fullmatch rx_digits (py_str (\<lambda>x. []) c))"
    by (simp add: len_def notna_def fullmatch_digits_iff is_digit_def)
  from detect_pattern_labels [OF d1, of "\<lambda>x. []"] h1
       detect_pattern_labels [OF d2, of "\<lambda>x. []"] h2
  show ?thesis by blast
qed

section \<open>Claims about the dataset profiler\<close>

lemma truediv_guarded: "0 < k \<Longrightarrow> truediv a (real (max k n)) = Inr (a / real (max k n))"
  by (simp add: truediv_def)


















section \<open>Claims about the outlier detector\<close>








section \<open>Claims about the single-dataset rule generator\<close>

lemma str_nat_digit: "n < 10 \<Longrightarrow> str_nat n = [digit_char n]"
  by (simp add: str_nat.simps)

lemma all_missing_dropna:
  "list_all isna (s_values series) \<Longrightarrow> s_values (dropna series) = []"
  by (simp add: dropna_def filter_empty_conv list_all_iff notna_def)

lemma all_missing_generate:
  assumes "list_all isna (s_values series)" "s_values series \<noteq> []"
  shows "generate_pbl_for_column fs series =
           Inr [''Nulls are allowed.'', ''Avoid special characters unless required (/, -, : etc).'',
                candidate_key_rule]"
proof -
  have d: "s_values (dropna series) = []" using assms(1) by (rule all_missing_dropna)
  have e: "empty (astype_str fs (dropna series))" by (simp add: empty_def astype_str_def d)
  have n: "isna_sum series = length (s_values series)"
    using assms(1) by (simp add: isna_sum_def list_all_iff)
  have nr: "nullability_rules series = [''Nulls are allowed.'']"
    using assms(2) by (simp add: nullability_rules_def n)
  have il: "infer_length_rules fs series = None" using e by (simp add: infer_length_rules_def)
  have cr: "character_rules fs series = [''Avoid special characters unless required (/, -, : etc).'']"
    using e by (simp add: character_rules_def is_numeric_only_def is_alpha_only_def il
                          head_def astype_str_def tolist_def d)
  have "filter notna (s_values series) = []" using d by (simp add: dropna_def)
  then have u: "nunique series = 0" "len (dropna series) = 0"
    by (simp_all add: nunique_def len_def d)
  show ?thesis by (simp add: generate_pbl_for_column_def nr cr uniqueness_rules_def u)
qed

lemma example_pbl:
  "generate_pbl_for_column fs \<lparr>s_dtype = DObject, s_values = [CStr ''1'', CStr ''2'', CStr ''3'', CNone]\<rparr>
   = Inr [''Nulls are allowed.'', ''Only numeric characters allowed.'',
          ''Character length between 1 and 1.'', ''No special characters or alphabets allowed.'',
          candidate_key_rule]"
proof -
  let ?s = "\<lparr>s_dtype = DObject, s_values = [CStr ''1'', CStr ''2'', CStr ''3'', CNone]\<rparr>"
  have t: "tolist fs (astype_str fs (dropna ?s)) = [''1'', ''2'', ''3'']"
    by (simp add: tolist_def astype_str_def dropna_def notna_def)
  have ne: "\<not> empty (astype_str fs (dropna ?s))"
    by (simp add: empty_def astype_str_def dropna_def notna_def)
  have num: "is_numeric_only fs ?s (98 / 100)"
    using ne by (simp add: is_numeric_only_def t bool_mean_def nanmean_def fullmatch_digits_iff is_digit_def)
  have il: "infer_length_rules fs ?s = Some \<lparr>lr_min = 1, lr_max = 1, lr_typical = Some 1\<rparr>"
    using ne by (simp add: infer_length_rules_def t mode_first_def)
  have nr: "nullability_rules ?s = [''Nulls are allowed.'']"
    by (simp add: nullability_rules_def isna_sum_def)
  have cr: "character_rules fs ?s = [''Only numeric characters allowed.'',
          ''Character length between 1 and 1.'', ''No special characters or alphabets allowed.'']"
    using num by (simp add: character_rules_def il str_nat_digit digit_char_def)
  have u: "uniqueness_rules ?s = Inr [candidate_key_rule]"
    by (simp add: uniqueness_rules_def nunique_def len_def dropna_def notna_def)
  show ?thesis by (simp add: generate_pbl_for_column_def nr cr u)
qed











text \<open>
  Claim C7. For the column "1", "2", "3", None the rule generator emits \<^verbatim>\<open>Nulls are allowed.\<close>
  first, takes the numeric-only branch (all of the three values that are not missing
  consist of digits, a fraction of 1, which is at least 0.98) and emits the
  character-length rule with minimum 1 and maximum 1.
\<close>

theorem numeric_column_with_null:
  "generate_pbl_for_column fs \<lparr>s_dtype = DObject, s_values = [CStr ''1'', CStr ''2'', CStr ''3'', CNone]\<rparr>
     = Inr [''Nulls are allowed.'', ''Only numeric characters allowed.'',
            ''Character length between 1 and 1.'', ''No special characters or alphabets allowed.'',
            candidate_key_rule]
   \<and> isna_sum \<lparr>s_dtype = DObject, s_values = [CStr ''1'', CStr ''2'', CStr ''3'', CNone]\<rparr> = 1
   \<and> bool_mean (map (fullmatch rx_digits)
        (tolist fs (astype_str fs (dropna
           \<lparr>s_dtype = DObject, s_values = [CStr ''1'', CStr ''2'', CStr ''3'', CNone]\<rparr>)))) = Some 1
   \<and> is_numeric_only fs \<lparr>s_dtype = DObject, s_values = [CStr ''1'', CStr ''2'', CStr ''3'', CNone]\<rparr> (98 / 100)
   \<and> infer_length_rules fs \<lparr>s_dtype = DObject, s_values = [CStr ''1'', CStr ''2'', CStr ''3'', CNone]\<rparr>
     = Some \<lparr>lr_min = 1, lr_max = 1, lr_typical = Some 1\<rparr>"
proof -
  let ?s = "\<lparr>s_dtype = DObject, s_values = [CStr ''1'', CStr ''2'', CStr ''3'', CNone]\<rparr>"
  have t: "tolist fs (astype_str fs (dropna ?s)) = [''1'', ''2'', ''3'']"
    by (simp add: tolist_def astype_str_def dropna_def notna_def)
  have ne: "\<not> empty (astype_str fs (dropna ?s))"
    by (simp add: empty_def astype_str_def dropna_def notna_def)
  have m: "bool_mean (map (fullmatch rx_digits) (tolist fs (astype_str fs (dropna ?s)))) = Some 1"
    unfolding t by (simp add: bool_mean_def nanmean_def fullmatch_digits_iff is_digit_def)
  have num: "is_numeric_only fs ?s (98 / 100)"
    using ne by (simp add: is_numeric_only_def m)
  have il: "infer_length_rules fs ?s = Some \<lparr>lr_min = 1, lr_max = 1, lr_typical = Some 1\<rparr>"
    using ne by (simp add: infer_length_rules_def t mode_first_def)
  have n: "isna_sum ?s = 1" by (simp add: isna_sum_def)
  from example_pbl [of fs] n m num il show ?thesis by (intro conjI)
qed

theorem numeric_column_with_null_witness:
  "generate_pbl_for_column (\<lambda>x. []) \<lparr>s_dtype = DObject, s_values = [CStr ''1'', CStr ''2'', CStr ''3'', CNone]\<rparr>
     = Inr [''Nulls are allowed.'', ''Only numeric characters allowed.'',
            ''Character length between 1 and 1.'', ''No special characters or alphabets allowed.'',
            candidate_key_rule]"
  using numeric_column_with_null [of "\<lambda>x. []"] by (rule conjunct1)

text \<open>
  Claim C10, as amended. For every column that has at least one cell and whose cells are
  all missing, the rule generator returns exactly the three rules \<^verbatim>\<open>Nulls are allowed.\<close>,
  the caution about special characters and the candidate-key rule: the length helper
  returns \<^verbatim>\<open>None\<close>, so there is no length rule, and the uniqueness test holds because there
  are 0 distinct values and 0 values that are not missing.
\<close>

theorem all_missing_column_rules:
  assumes "s_values series \<noteq> []" and "list_all isna (s_values series)"
  shows "generate_pbl_for_column fs series =
           Inr [''Nulls are allowed.'', ''Avoid special characters unless required (/, -, : etc).'',
                ''Values are unique '' @ em_dash @ '' consider as candidate key.'']
         \<and> infer_length_rules fs series = None
         \<and> nunique series = 0 \<and> len (dropna series) = 0"
proof -
  have d: "s_values (dropna series) = []" using assms(2) by (rule all_missing_dropna)
  then have f: "filter notna (s_values series) = []" by (simp add: dropna_def)
  have "infer_length_rules fs series = None"
    by (simp add: infer_length_rules_def empty_def astype_str_def d)
  moreover have "nunique series = 0" by (simp add: nunique_def f)
  moreover have "len (dropna series) = 0" by (simp add: len_def d)
  moreover have "generate_pbl_for_column fs series =
           Inr [''Nulls are allowed.'', ''Avoid special characters unless required (/, -, : etc).'',
                ''Values are unique '' @ em_dash @ '' consider as candidate key.'']"
    using all_missing_generate [OF assms(2) assms(1), of fs] by (simp add: candidate_key_rule_def)
  ultimately show ?thesis by (intro conjI)
qed

theorem all_missing_column_rules_witness:
  "generate_pbl_for_column (\<lambda>x. []) \<lparr>s_dtype = DFloat64, s_values = [CNone, CNone]\<rparr> =
     Inr [''Nulls are allowed.'', ''Avoid special characters unless required (/, -, : etc).'',
          ''Values are unique '' @ em_dash @ '' consider as candidate key.'']"
proof -
  let ?s = "\<lparr>s_dtype = DFloat64, s_values = [CNone, CNone]\<rparr>"
  have 1: "s_values ?s \<noteq> []" by simp
  have 2: "list_all isna (s_values ?s)" by simp
  from all_missing_column_rules [OF 1 2, of "\<lambda>x. []"] show ?thesis by (rule conjunct1)
qed

lemma zero_length_column_rules:
  "generate_pbl_for_column fs \<lparr>s_dtype = d, s_values = []\<rparr>
     = Inr [''Nulls are NOT allowed.'', ''Avoid special characters unless required (/, -, : etc).'',
            candidate_key_rule]"
proof -
  let ?s = "\<lparr>s_dtype = d, s_values = []\<rparr>"
  have e: "empty (astype_str fs (dropna ?s))" by (simp add: empty_def astype_str_def dropna_def)
  have nr: "nullability_rules ?s = [''Nulls are NOT allowed.'']"
    by (simp add: nullability_rules_def isna_sum_def)
  have il: "infer_length_rules fs ?s = None" using e by (simp add: infer_length_rules_def)
  have cr: "character_rules fs ?s = [''Avoid special characters unless required (/, -, : etc).'']"
    using e by (simp add: character_rules_def is_numeric_only_def is_alpha_only_def il
                          head_def astype_str_def tolist_def dropna_def)
  have u: "nunique ?s = 0" "len (dropna ?s) = 0"
    by (simp_all add: nunique_def len_def dropna_def)
  show ?thesis by (simp add: generate_pbl_for_column_def nr cr uniqueness_rules_def u)
qed

text \<open>
  Claim C10 as it was stated covers the column of length zero, all of whose cells are
  missing since it has none. There \<^verbatim>\<open>isna().sum()\<close> is 0, so the first rule is
  \<^verbatim>\<open>Nulls are NOT allowed.\<close> and not \<^verbatim>\<open>Nulls are allowed.\<close>
\<close>

theorem all_missing_column_rules_counterexample:
  "list_all isna (s_values \<lparr>s_dtype = DObject, s_values = []\<rparr>)
   \<and> generate_pbl_for_column (\<lambda>x. []) \<lparr>s_dtype = DObject, s_values = []\<rparr>
     = Inr [''Nulls are NOT allowed.'', ''Avoid special characters unless required (/, -, : etc).'',
            ''Values are unique '' @ em_dash @ '' consider as candidate key.'']
   \<and> generate_pbl_for_column (\<lambda>x. []) \<lparr>s_dtype = DObject, s_values = []\<rparr>
     \<noteq> Inr [''Nulls are allowed.'', ''Avoid special characters unless required (/, -, : etc).'',
            ''Values are unique '' @ em_dash @ '' consider as candidate key.'']"
  by (simp add: zero_length_column_rules candidate_key_rule_def)

section \<open>Claims about the reference-based rule generator\<close>

lemma astype_str_facts:
  "isna_sum (astype_str fs x) = 0"
  "\<not> is_numeric_dtype (astype_str fs x)"
  "len (astype_str fs x) = len x"
  "tolist fs (astype_str fs x) = tolist fs x"
  by (simp_all add: isna_sum_def astype_str_def len_def tolist_def filter_empty_conv comp_def
                    is_numeric_dtype_def)

lemma null_rules_after_dropna:
  "null_rules (astype_str fs x) (astype_str fs y) = [''Nulls are NOT allowed (reference has no nulls).'']"
  by (simp add: null_rules_def astype_str_facts)

lemma numeric_range_rules_dead:
  "numeric_range_rules fs num (astype_str fs x) (astype_str fs y) = []"
  by (simp add: numeric_range_rules_def astype_str_facts)

lemma overlap_frac_total:
  "overlap_frac t_vals r_vals =
     Inr (if t_vals = [] then 0
          else real (length (filter (\<lambda>v. v \<in> set r_vals) t_vals)) / real (max 1 (length t_vals)))"
  by (simp add: overlap_frac_def truediv_guarded)


lemma overlap_rules_eq:
  "overlap_rules fs t r thr =
     Inr (if len r > 0 \<and> len t > 0
          then enumeration_rules
                 (if remdups (tolist fs t) = [] then 0
                  else real (length (filter (\<lambda>v. v \<in> set (remdups (tolist fs r))) (remdups (tolist fs t))))
                       / real (max 1 (length (remdups (tolist fs t)))))
                 thr (remdups (tolist fs r))
          else [])"
  by (simp add: overlap_rules_def overlap_frac_total Let_def)

lemma derive_rules_eq:
  "derive_rules_from_reference fs num tp rp target reference thr n =
     (let t = astype_str fs (dropna target); r = astype_str fs (dropna reference)
      in case overlap_rules fs t r thr of
           Inl e \<Rightarrow> Inl e
         | Inr enum_rules \<Rightarrow>
             (case target_uniqueness_rules t of
                Inl e \<Rightarrow> Inl e
              | Inr last_rules \<Rightarrow>
                  Inr (null_rules t r @ reference_key_rules r @ enum_rules
                       @ numeric_range_rules fs num t r @ pattern_rules fs tp rp t r n
                       @ distinct_count_rules t r @ last_rules)))"
  by (simp add: derive_rules_from_reference_def Let_def split: sum.splits)








lemma fmt_2f_one: "fmt_2f 1 = ''1.00''"
  by (simp add: fmt_2f_def rint_def Let_def str_nat_digit two_digits_def digit_char_def)



lemma search_date_A: "\<not> search rx_date ''A''"
  by (simp add: search_def rx_date_def is_digit_def)

lemma example_reference_nulls:
  "derive_rules_from_reference fs num [0] [0]
      \<lparr>s_dtype = DObject, s_values = [CStr ''A'']\<rparr>
      \<lparr>s_dtype = DObject, s_values = [CStr ''A'', CNone]\<rparr> (95 / 100) 500
   = Inr [''Nulls are NOT allowed (reference has no nulls).'',
          ''Reference values are unique '' @ em_dash @ '' consider as reference key.'',
          ''Allowed values derived from reference (enumeration of 1 values).'',
          ''Allowed values (sample): A'',
          ''Fraction of target values present in reference: 1.00'',
          ''Suggested pattern (regex): `^.{1,1}$`'',
          ''Reference distinct count: 1'',
          ''Target distinct count: 1'',
          target_key_rule]"
proof -
  let ?T = "\<lparr>s_dtype = DObject, s_values = [CStr ''A'']\<rparr>"
  let ?R = "\<lparr>s_dtype = DObject, s_values = [CStr ''A'', CNone]\<rparr>"
  let ?s = "\<lparr>s_dtype = DObject, s_values = [CStr ''A'']\<rparr>"
  have t: "astype_str fs (dropna ?T) = ?s" by (simp add: astype_str_def dropna_def notna_def)
  have r: "astype_str fs (dropna ?R) = ?s" by (simp add: astype_str_def dropna_def notna_def)
  have l: "len ?s = 1" "tolist fs ?s = [''A'']" "nunique ?s = 1"
    by (simp_all add: len_def tolist_def nunique_def notna_def)
  have 1: "null_rules ?s ?s = [''Nulls are NOT allowed (reference has no nulls).'']"
    by (simp add: null_rules_def isna_sum_def)
  have 2: "reference_key_rules ?s = [''Reference values are unique '' @ em_dash @ '' consider as reference key.'']"
    by (simp add: reference_key_rules_def l)
  have 3: "overlap_rules fs ?s ?s (95 / 100) =
             Inr [''Allowed values derived from reference (enumeration of 1 values).'',
                  ''Allowed values (sample): A'',
                  ''Fraction of target values present in reference: 1.00'']"
    by (simp add: overlap_rules_eq l enumeration_rules_def Let_def fmt_2f_one str_nat_digit digit_char_def)
  have 4: "numeric_range_rules fs num ?s ?s = []"
    by (simp add: numeric_range_rules_def is_numeric_dtype_def)
  have 5: "pattern_rules fs [0] [0] ?s ?s 500 = [''Suggested pattern (regex): `^.{1,1}$`'']"
    by (simp add: pattern_rules_def l sample_def astype_str_def tolist_def suggest_regex_from_sample_def
                  fullmatch_digits_iff is_digit_def search_at_iff search_date_A str_nat_digit digit_char_def)
  have 6: "distinct_count_rules ?s ?s = [''Reference distinct count: 1'', ''Target distinct count: 1'']"
    by (simp add: distinct_count_rules_def l str_nat_digit digit_char_def)
  have 7: "target_uniqueness_rules ?s = Inr [target_key_rule]"
    by (simp add: target_uniqueness_rules_def l)
  show ?thesis
    unfolding derive_rules_eq t r Let_def 3 7 1 2 4 5 6 by simp
qed

lemma example_numeric_columns:
  "derive_rules_from_reference fs num [0, 1, 2] [0, 1, 2, 3]
      \<lparr>s_dtype = DInt64, s_values = [CInt 1, CInt 2, CInt 3]\<rparr>
      \<lparr>s_dtype = DInt64, s_values = [CInt 1, CInt 2, CInt 3, CInt 4]\<rparr> (95 / 100) 500
   = Inr [''Nulls are NOT allowed (reference has no nulls).'',
          ''Reference values are unique '' @ em_dash @ '' consider as reference key.'',
          ''Allowed values derived from reference (enumeration of 4 values).'',
          ''Allowed values (sample): 1, 2, 3, 4'',
          ''Fraction of target values present in reference: 1.00'',
          ''Suggested pattern (regex): `^'' @ bs @ ''d+$`'',
          ''Reference distinct count: 4'',
          ''Target distinct count: 3'',
          target_key_rule]"
proof -
  let ?T = "\<lparr>s_dtype = DInt64, s_values = [CInt 1, CInt 2, CInt 3]\<rparr>"
  let ?R = "\<lparr>s_dtype = DInt64, s_values = [CInt 1, CInt 2, CInt 3, CInt 4]\<rparr>"
  let ?t = "\<lparr>s_dtype = DObject, s_values = [CStr ''1'', CStr ''2'', CStr ''3'']\<rparr>"
  let ?r = "\<lparr>s_dtype = DObject, s_values = [CStr ''1'', CStr ''2'', CStr ''3'', CStr ''4'']\<rparr>"
  have t: "astype_str fs (dropna ?T) = ?t"
    by (simp add: astype_str_def dropna_def notna_def str_int_def str_nat_digit digit_char_def)
  have r: "astype_str fs (dropna ?R) = ?r"
    by (simp add: astype_str_def dropna_def notna_def str_int_def str_nat_digit digit_char_def)
  have lt: "len ?t = 3" "tolist fs ?t = [''1'', ''2'', ''3'']" "nunique ?t = 3"
    by (simp_all add: len_def tolist_def nunique_def notna_def)
  have lr: "len ?r = 4" "tolist fs ?r = [''1'', ''2'', ''3'', ''4'']" "nunique ?r = 4"
    by (simp_all add: len_def tolist_def nunique_def notna_def)
  have 1: "null_rules ?t ?r = [''Nulls are NOT allowed (reference has no nulls).'']"
    by (simp add: null_rules_def isna_sum_def)
  have 2: "reference_key_rules ?r = [''Reference values are unique '' @ em_dash @ '' consider as reference key.'']"
    by (simp add: reference_key_rules_def lr)
  have 3: "overlap_rules fs ?t ?r (95 / 100) =
             Inr [''Allowed values derived from reference (enumeration of 4 values).'',
                  ''Allowed values (sample): 1, 2, 3, 4'',
                  ''Fraction of target values present in reference: 1.00'']"
    by (simp add: overlap_rules_eq lt lr enumeration_rules_def Let_def fmt_2f_one str_nat_digit digit_char_def)
  have 4: "numeric_range_rules fs num ?t ?r = []"
    by (simp add: numeric_range_rules_def is_numeric_dtype_def)
  have 5: "pattern_rules fs [0, 1, 2] [0, 1, 2, 3] ?t ?r 500 = [''Suggested pattern (regex): `^'' @ bs @ ''d+$`'']"
    by (simp add: pattern_rules_def lt lr sample_def astype_str_def tolist_def suggest_regex_from_sample_def
                  fullmatch_digits_iff is_digit_def bs_def)
  have 6: "distinct_count_rules ?t ?r = [''Reference distinct count: 4'', ''Target distinct count: 3'']"
    by (simp add: distinct_count_rules_def lt lr str_nat_digit digit_char_def)
  have 7: "target_uniqueness_rules ?t = Inr [target_key_rule]"
    by (simp add: target_uniqueness_rules_def lt)
  show ?thesis
    unfolding derive_rules_eq t r Let_def 3 7 1 2 4 5 6 by simp
qed

lemma example_coercible:
  "dropna_num (to_numeric num \<lparr>s_dtype = DInt64, s_values = [CInt 1, CInt 2, CInt 3]\<rparr>) = [1, 2, 3]"
  "dropna_num (to_numeric num \<lparr>s_dtype = DInt64, s_values = [CInt 1, CInt 2, CInt 3, CInt 4]\<rparr>) = [1, 2, 3, 4]"
  by (simp_all add: to_numeric_def)


text \<open>
  Claim C4 fails on the code. The reference column "A", None contains a null, and the
  claim expects the rule \<^verbatim>\<open>Nulls allowed (reference permits nulls).\<close>; the code emits
  \<^verbatim>\<open>Nulls are NOT allowed (reference has no nulls).\<close> instead, here and for every pair of
  columns, because the null rule counts the nulls of the series from which
  \<^verbatim>\<open>dropna()\<close> has already removed them.
\<close>

theorem reference_with_nulls_rules:
  "derive_rules_from_reference fs num [0] [0]
      \<lparr>s_dtype = DObject, s_values = [CStr ''A'']\<rparr>
      \<lparr>s_dtype = DObject, s_values = [CStr ''A'', CNone]\<rparr> (95 / 100) 500
   = Inr [''Nulls are NOT allowed (reference has no nulls).'',
          ''Reference values are unique '' @ em_dash @ '' consider as reference key.'',
          ''Allowed values derived from reference (enumeration of 1 values).'',
          ''Allowed values (sample): A'',
          ''Fraction of target values present in reference: 1.00'',
          ''Suggested pattern (regex): `^.{1,1}$`'',
          ''Reference distinct count: 1'',
          ''Target distinct count: 1'',
          ''Values in this dataset are unique '' @ em_dash @ '' candidate key.'']
   \<and> isna_sum \<lparr>s_dtype = DObject, s_values = [CStr ''A'', CNone]\<rparr> = 1
   \<and> null_rules (astype_str fs (dropna target)) (astype_str fs (dropna reference))
     = [''Nulls are NOT allowed (reference has no nulls).'']"
  using example_reference_nulls [of fs num] null_rules_after_dropna [of fs "dropna target" "dropna reference"]
  by (simp add: target_key_rule_def isna_sum_def)

theorem reference_with_nulls_rules_witness:
  "hd (projr (derive_rules_from_reference (\<lambda>x. []) (\<lambda>v. None) [0] [0]
      \<lparr>s_dtype = DObject, s_values = [CStr ''A'']\<rparr>
      \<lparr>s_dtype = DObject, s_values = [CStr ''A'', CNone]\<rparr> (95 / 100) 500))
   = ''Nulls are NOT allowed (reference has no nulls).''"
  using reference_with_nulls_rules [of "\<lambda>x. []" "\<lambda>v. None"] by simp



text \<open>
  Claim C6 fails on the code. The target 1, 2, 3 and the reference 1, 2, 3, 4 are integer
  columns, every value of which is numeric, and the claim expects a numeric range rule for
  each; the code emits none, here and for every pair of columns, because it tests the
  dtype of the series that \<^verbatim>\<open>astype(str)\<close> has already turned into strings.
\<close>

theorem numeric_columns_rules:
  "derive_rules_from_reference fs num [0, 1, 2] [0, 1, 2, 3]
      \<lparr>s_dtype = DInt64, s_values = [CInt 1, CInt 2, CInt 3]\<rparr>
      \<lparr>s_dtype = DInt64, s_values = [CInt 1, CInt 2, CInt 3, CInt 4]\<rparr> (95 / 100) 500
   = Inr [''Nulls are NOT allowed (reference has no nulls).'',
          ''Reference values are unique '' @ em_dash @ '' consider as reference key.'',
          ''Allowed values derived from reference (enumeration of 4 values).'',
          ''Allowed values (sample): 1, 2, 3, 4'',
          ''Fraction of target values present in reference: 1.00'',
          ''Suggested pattern (regex): `^'' @ bs @ ''d+$`'',
          ''Reference distinct count: 4'',
          ''Target distinct count: 3'',
          ''Values in this dataset are unique '' @ em_dash @ '' candidate key.'']
   \<and> dropna_num (to_numeric num \<lparr>s_dtype = DInt64, s_values = [CInt 1, CInt 2, CInt 3]\<rparr>) = [1, 2, 3]
   \<and> dropna_num (to_numeric num \<lparr>s_dtype = DInt64, s_values = [CInt 1, CInt 2, CInt 3, CInt 4]\<rparr>)
     = [1, 2, 3, 4]
   \<and> numeric_range_rules fs num (astype_str fs (dropna target)) (astype_str fs (dropna reference)) = []"
  using example_numeric_columns [of fs num] example_coercible [of num]
        numeric_range_rules_dead [of fs num "dropna target" "dropna reference"]
  by (simp add: target_key_rule_def)

theorem numeric_columns_rules_witness:
  "length (projr (derive_rules_from_reference (\<lambda>x. []) (\<lambda>v. None) [0, 1, 2] [0, 1, 2, 3]
      \<lparr>s_dtype = DInt64, s_values = [CInt 1, CInt 2, CInt 3]\<rparr>
      \<lparr>s_dtype = DInt64, s_values = [CInt 1, CInt 2, CInt 3, CInt 4]\<rparr> (95 / 100) 500)) = 9"
  using numeric_columns_rules [of "\<lambda>x. []" "\<lambda>v. None"] by simp

section \<open>Claims about the guarded ratios\<close>








end
